theory Spec2Isabelle
  imports Complex_Main "HOL-Library.Word" "HOL-Library.Sublist"
begin

section \<open>Weather advisor: the weather service and the advice orchestrator\<close>

text \<open>
  A shallow embedding of the two gRPC services of the repository: package \<open>weather\<close>
  (\<open>getWeatherDescription\<close>, \<open>GetCurrentWeather\<close>) and package \<open>advisor\<close>
  (\<open>geocodeCity\<close>, \<open>GetAdvice\<close>, \<open>StreamAdvice\<close>, \<open>generateAdvice\<close>,
  \<open>streamAdviceGeneration\<close>).

  Conventions.
  \<^item> An \<open>error\<close> of Go is its message, a \<open>string\<close>; a function returning
    \<open>(T, error)\<close> returns \<open>string + T\<close> (\<open>Inl\<close> the message), a function returning
    only \<open>error\<close> returns \<open>string option\<close> (\<open>None\<close> is \<open>nil\<close>).
  \<^item> A function that can panic returns an \<open>outcome\<close>: \<open>Return\<close> with what it
    returns, or \<open>Panic\<close>. A loop that need not end returns an \<open>option\<close>, \<open>None\<close>
    when it runs forever.

  \<^item> Every effect on the outside world is appended to a trace of events, in the order
    the code performs it; each function takes the trace and returns it extended.
  \<^item> The outside world (HTTP servers, the JSON decoder, the generative backend, the
    gRPC stream, the formatting of floats) is a record of oracles. An oracle that
    answers a call receives the trace so far, so its answers may depend on everything
    that happened before.
  \<^item> \<open>float64\<close> values are only stored, copied and formatted by this code, never
    computed with; they are modelled as the real number they denote.
  \<^item> The Prometheus timers (\<open>NewTimer\<close>, \<open>ObserveDuration\<close>) and the client
    timeouts measure wall-clock time and are left out.
\<close>

subsection \<open>Messages of the two services\<close>

type_synonym float64 = real

record CityData =
  Location :: string
  State :: string
  Country :: string

record AdvisorRequest =
  Cities :: "CityData list"

record AdvisorResponse =
  Advice :: string

record StreamAdviceResponse =
  Chunk :: string
  IsComplete :: bool

record WeatherRequest =
  Latitude :: float64
  Longitude :: float64

record WeatherResponse =
  Location :: string
  Temperature :: float64
  FeelsLike :: float64
  TempMin :: float64
  TempMax :: float64
  Pressure :: int
  Humidity :: "32 word"
  WindSpeed :: float64
  WindDeg :: "32 word"
  Timestamp :: "64 word"
  Description :: string

subsection \<open>Replies of the providers, as the code decodes them\<close>

record GeocodeResult =
  Name :: string
  Latitude :: float64
  Longitude :: float64
  Country :: string
  Admin1 :: string

record GeocodeResponse =
  Results :: "GeocodeResult list"

record OpenMeteoCurrent =
  Temperature :: float64
  Humidity :: "32 word"
  WindSpeed :: float64
  WindDir :: "32 word"
  WeatherCode :: "32 word"

record OpenMeteoCurrentUnits =
  Temperature :: string
  WindSpeed :: string

record OpenMeteoResponse =
  Current :: OpenMeteoCurrent
  CurrentUnits :: OpenMeteoCurrentUnits

text \<open>
  The responses of the generative backend. A \<open>genai.Part\<close> is an interface; the code
  only asks whether a part is a \<open>genai.Text\<close>, and \<open>OtherPart\<close> stands for every part
  that is not. The field \<open>Content\<close> of a \<open>genai.Candidate\<close> is a pointer, \<open>nil\<close> (here
  \<open>None\<close>) when the backend sent the candidate without a content.
\<close>


datatype Part = Text string | OtherPart

record Content =
  Parts :: "Part list"

record Candidate =
  Content :: "Content option"

record GenerateContentResponse =
  Candidates :: "Candidate list"

subsection \<open>Effects and the outside world\<close>

text \<open>The result of \<open>client.Get(url)\<close>: a transport error, or a status code and a body.\<close>

datatype http_reply = TransportError string | Response int string

datatype event =
    HttpGet string
  | CounterInc string string
  | GenerateContent string string
  | GenerateContentStream string string
  | IterNext "string + GenerateContentResponse"
  | StreamSend StreamAdviceResponse

type_synonym trace = "event list"

record env =
  http_get :: "trace \<Rightarrow> string \<Rightarrow> http_reply"
  decode_geocode :: "string \<Rightarrow> string + GeocodeResponse"
  decode_weather :: "string \<Rightarrow> string + OpenMeteoResponse"
  query_escape :: "string \<Rightarrow> string"
  sprintf_f :: "float64 \<Rightarrow> string"
  sprintf_1f :: "float64 \<Rightarrow> string"
  sprintf_2f :: "float64 \<Rightarrow> string"
  now_unix :: "trace \<Rightarrow> 64 word"
  generate_content :: "trace \<Rightarrow> string \<Rightarrow> string \<Rightarrow> string + GenerateContentResponse"
  iter_next :: "trace \<Rightarrow> string + GenerateContentResponse"
  stream_send :: "trace \<Rightarrow> StreamAdviceResponse \<Rightarrow> string option"

text \<open>
  A Go function either returns or panics. The code reads \<open>cand.Content.Parts\<close> without
  a check, a nil pointer dereference when the content is missing: \<open>Panic\<close> is that run,
  which returns nothing. Only the functions that read a candidate can panic.
\<close>

datatype 'a outcome = Return 'a | Panic

subsection \<open>Library functions the code calls\<close>

text \<open>
  The error a \<open>genai\<close> response iterator returns from \<open>Next\<close> once the stream is
  exhausted: the sentinel \<open>iterator.Done\<close> of \<open>google.golang.org/api/iterator\<close>, whose
  message is this string. It is the iterator's normal end-of-stream indicator.
\<close>

definition iterator_Done :: string where
  "iterator_Done = ''no more items in iterator''"

text \<open>The verb \<open>%d\<close> of \<open>fmt\<close>: a decimal numeral, with a sign when negative.\<close>

fun show_nat :: "nat \<Rightarrow> string" where
  "show_nat n =
     (if n < 10 then [''0123456789'' ! n]
      else show_nat (n div 10) @ [''0123456789'' ! (n mod 10)])"

declare show_nat.simps [simp del]

definition sprintf_d :: "int \<Rightarrow> string" where
  "sprintf_d i = (if i < 0 then CHR ''-'' # show_nat (nat (- i)) else show_nat (nat i))"

primrec strings_Contains :: "string \<Rightarrow> string \<Rightarrow> bool" where
  "strings_Contains [] substr = (substr = [])"
| "strings_Contains (c # s) substr = (prefix substr (c # s) \<or> strings_Contains s substr)"

fun strings_Join :: "string list \<Rightarrow> string \<Rightarrow> string" where
  "strings_Join [] sep = []"
| "strings_Join [x] sep = x"
| "strings_Join (x # y # ys) sep = x @ sep @ strings_Join (y # ys) sep"

subsection \<open>Package weather\<close>

definition descriptions :: "(32 word \<times> string) list" where
  "descriptions =
     [(0, ''clear sky''), (1, ''mainly clear''), (2, ''partly cloudy''), (3, ''overcast''),
      (45, ''fog''), (48, ''depositing rime fog''), (51, ''light drizzle''),
      (53, ''moderate drizzle''), (55, ''dense drizzle''), (61, ''slight rain''),
      (63, ''moderate rain''), (65, ''heavy rain''), (71, ''slight snow''),
      (73, ''moderate snow''), (75, ''heavy snow''), (80, ''rain showers''),
      (81, ''moderate rain showers''), (82, ''violent rain showers''),
      (95, ''thunderstorm'')]"

definition getWeatherDescription :: "32 word \<Rightarrow> string" where
  "getWeatherDescription code =
     (case map_of descriptions code of
        Some desc \<Rightarrow> desc
      | None \<Rightarrow> ''unknown'')"

definition weather_url :: "env \<Rightarrow> WeatherRequest \<Rightarrow> string" where
  "weather_url env req =
     ''https://api.open-meteo.com/v1/forecast?latitude='' @ sprintf_f env (WeatherRequest.Latitude req)
     @ ''&longitude='' @ sprintf_f env (WeatherRequest.Longitude req)
     @ ''&current=temperature_2m,relative_humidity_2m,wind_speed_10m,wind_direction_10m,weather_code&timezone=auto''"

definition weatherRequests :: "string \<Rightarrow> event" where
  "weatherRequests status = CounterInc ''weather_requests_total'' status"

definition GetCurrentWeather ::
  "env \<Rightarrow> trace \<Rightarrow> WeatherRequest \<Rightarrow> (string + WeatherResponse) \<times> trace" where
  "GetCurrentWeather env tr req =
     (let url = weather_url env req;
          tr1 = tr @ [HttpGet url]
      in case http_get env tr url of
           TransportError err \<Rightarrow>
             (Inl (''API request failed: '' @ err), tr1 @ [weatherRequests ''error''])
         | Response StatusCode Body \<Rightarrow>
             if StatusCode \<noteq> 200 then
               (Inl (''API status: '' @ sprintf_d StatusCode), tr1 @ [weatherRequests ''error''])
             else
               (case decode_weather env Body of
                  Inl err \<Rightarrow>
                    (Inl (''decode failed: '' @ err), tr1 @ [weatherRequests ''error''])
                | Inr weatherData \<Rightarrow>
                    (Inr \<lparr> WeatherResponse.Location =
                             sprintf_2f env (WeatherRequest.Latitude req) @ '','' @
                             sprintf_2f env (WeatherRequest.Longitude req),
                           WeatherResponse.Temperature = OpenMeteoCurrent.Temperature (Current weatherData),
                           FeelsLike = OpenMeteoCurrent.Temperature (Current weatherData),
                           TempMin = OpenMeteoCurrent.Temperature (Current weatherData),
                           TempMax = OpenMeteoCurrent.Temperature (Current weatherData),
                           Pressure = 1013,
                           WeatherResponse.Humidity = OpenMeteoCurrent.Humidity (Current weatherData),
                           WeatherResponse.WindSpeed = OpenMeteoCurrent.WindSpeed (Current weatherData),
                           WindDeg = WindDir (Current weatherData),
                           Timestamp = now_unix env tr1,
                           Description = getWeatherDescription (WeatherCode (Current weatherData)) \<rparr>,
                     tr1 @ [weatherRequests ''success''])))"

subsection \<open>Package advisor: resolving a city\<close>

definition cityCoords :: "(string \<times> float64 \<times> float64) list" where
  "cityCoords =
     [(''New York'', (40.7128, -74.0060)),
      (''London'', (51.5074, -0.1278)),
      (''Tokyo'', (35.6762, 139.6503)),
      (''Paris'', (48.8566, 2.3522)),
      (''Los Angeles'', (34.0522, -118.2437)),
      (''Chicago'', (41.8781, -87.6298)),
      (''Sydney'', (-33.8688, 151.2093))]"

definition geocode_url :: "env \<Rightarrow> CityData \<Rightarrow> string" where
  "geocode_url env city =
     ''https://geocoding-api.open-meteo.com/v1/search?name='' @ query_escape env (CityData.Location city)
     @ ''&count=1&language=en&format=json''"

definition geocodeCity ::
  "env \<Rightarrow> trace \<Rightarrow> CityData \<Rightarrow> string \<Rightarrow> (string + float64 \<times> float64) \<times> trace" where
  "geocodeCity env tr city apiKey =
     (case map_of cityCoords (CityData.Location city) of
        Some coords \<Rightarrow> (Inr (fst coords, snd coords), tr)
      | None \<Rightarrow>
          (let apiURL = geocode_url env city;
               tr1 = tr @ [HttpGet apiURL]
           in case http_get env tr apiURL of
                TransportError err \<Rightarrow> (Inl (''geocoding failed: '' @ err), tr1)
              | Response StatusCode Body \<Rightarrow>
                  if StatusCode \<noteq> 200 then
                    (Inl (''geocoding API returned status '' @ sprintf_d StatusCode), tr1)
                  else
                    (case decode_geocode env Body of
                       Inl err \<Rightarrow> (Inl (''decode failed: '' @ err), tr1)
                     | Inr geocodeResp \<Rightarrow>
                         (case Results geocodeResp of
                            [] \<Rightarrow>
                              (Inl (''location not found: '' @ CityData.Location city @
                                    '' (try: New York, London, Tokyo, Paris, Los Angeles, Chicago, Sydney)''),
                               tr1)
                          | r # _ \<Rightarrow>
                              (Inr (GeocodeResult.Latitude r, GeocodeResult.Longitude r), tr1)))))"

subsection \<open>Package advisor: the prompt and the generative backend\<close>

definition advisorRequests :: "string \<Rightarrow> event" where
  "advisorRequests status = CounterInc ''advisor_requests_total'' status"

text \<open>The degree sign of the format string, as Go stores it: two bytes of UTF-8.\<close>

definition degree_sign :: string where
  "degree_sign = [CHR 0xC2, CHR 0xB0]"

text \<open>
  The \<open>Sprintf\<close> of lines 132-133 and 166-167, with the format
  \<open>City: %s, Temp: %.1f\<degree>C, Condition: %s, Humidity: %d%%, Wind: %.1f m/s\<close>.
\<close>

definition weatherInfo :: "env \<Rightarrow> WeatherResponse \<Rightarrow> string" where
  "weatherInfo env weatherResp =
     ''City: '' @ WeatherResponse.Location weatherResp
     @ '', Temp: '' @ sprintf_1f env (WeatherResponse.Temperature weatherResp) @ degree_sign
     @ ''C, Condition: '' @ Description weatherResp
     @ '', Humidity: '' @ sprintf_d (sint (WeatherResponse.Humidity weatherResp))
     @ ''%, Wind: '' @ sprintf_1f env (WeatherResponse.WindSpeed weatherResp) @ '' m/s''"

definition prompt_head :: string where
  "prompt_head =
     ''Weather advisor. Based on this data provide practical advice:'' @ [CHR 0x0A, CHR 0x0A]"

definition prompt_tail :: string where
  "prompt_tail =
     [CHR 0x0A, CHR 0x0A] @
     ''Include: summary, clothing advice, activity suggestions, warnings. Keep it concise.''"

definition prompt :: "string list \<Rightarrow> string" where
  "prompt weatherData = prompt_head @ strings_Join weatherData [CHR 0x0A] @ prompt_tail"

definition model_name :: string where
  "model_name = ''gemini-1.5-flash''"

text \<open>The loop of lines 201-203 over the parts of the first candidate: its texts, concatenated.\<close>

fun text_parts :: "Part list \<Rightarrow> string" where
  "text_parts [] = []"
| "text_parts (Text text # parts) = text @ text_parts parts"
| "text_parts (OtherPart # parts) = text_parts parts"

definition generateAdvice ::
  "env \<Rightarrow> trace \<Rightarrow> string list \<Rightarrow> (string + string) outcome \<times> trace" where
  "generateAdvice env tr weatherData =
     (let tr1 = tr @ [GenerateContent model_name (prompt weatherData)]
      in case generate_content env tr model_name (prompt weatherData) of
           Inl err \<Rightarrow> (Return (Inl (''Gemini API failed: '' @ err)), tr1)
         | Inr resp \<Rightarrow>
             (case Candidates resp of
                [] \<Rightarrow> (Return (Inl ''no response generated''), tr1)
              | cand # _ \<Rightarrow>
                  (case Content cand of
                     None \<Rightarrow> (Panic, tr1)
                   | Some content \<Rightarrow> (Return (Inr (text_parts (Parts content))), tr1))))"

subsection \<open>Package advisor: GetAdvice\<close>

text \<open>
  The loop of lines 118-135 over \<open>req.Cities\<close>; \<open>weatherData\<close> is the slice built so
  far. An error leaves the loop and the function at once.
\<close>

fun GetAdvice_cities ::
  "env \<Rightarrow> trace \<Rightarrow> CityData list \<Rightarrow> string list \<Rightarrow> (string + string list) \<times> trace" where
  "GetAdvice_cities env tr [] weatherData = (Inr weatherData, tr)"
| "GetAdvice_cities env tr (city # cities) weatherData =
     (case geocodeCity env tr city '''' of
        (Inl err, tr1) \<Rightarrow>
          (Inl (''geocoding failed for '' @ CityData.Location city @ '': '' @ err),
           tr1 @ [advisorRequests ''error''])
      | (Inr (lat, lon), tr1) \<Rightarrow>
          (case GetCurrentWeather env tr1 \<lparr>WeatherRequest.Latitude = lat, Longitude = lon\<rparr> of
             (Inl err, tr2) \<Rightarrow>
               (Inl (''weather request failed for '' @ CityData.Location city @ '': '' @ err),
                tr2 @ [advisorRequests ''error''])
           | (Inr weatherResp, tr2) \<Rightarrow>
               GetAdvice_cities env tr2 cities (weatherData @ [weatherInfo env weatherResp])))"

definition GetAdvice ::
  "env \<Rightarrow> trace \<Rightarrow> AdvisorRequest \<Rightarrow> (string + AdvisorResponse) outcome \<times> trace" where
  "GetAdvice env tr req =
     (case GetAdvice_cities env tr (Cities req) [] of
        (Inl err, tr1) \<Rightarrow> (Return (Inl err), tr1)
      | (Inr weatherData, tr1) \<Rightarrow>
          (case generateAdvice env tr1 weatherData of
             (Panic, tr2) \<Rightarrow> (Panic, tr2)
           | (Return (Inl err), tr2) \<Rightarrow>
               (Return (Inl (''advice generation failed: '' @ err)),
                tr2 @ [advisorRequests ''error''])
           | (Return (Inr advice), tr2) \<Rightarrow>
               (Return (Inr \<lparr>Advice = advice\<rparr>), tr2 @ [advisorRequests ''success''])))"

subsection \<open>Package advisor: StreamAdvice\<close>

text \<open>
  The test of line 224 on the message of the iterator's error: what the code takes for
  the end of the stream. It looks for two substrings; it does not compare the error
  with the iterator's sentinel.
\<close>

definition end_of_stream :: "string \<Rightarrow> bool" where
  "end_of_stream err \<longleftrightarrow> strings_Contains err ''EOF'' \<or> strings_Contains err ''iterator stopped''"

text \<open>The loop of lines 236-247 over the parts of one candidate.\<close>

fun send_parts :: "env \<Rightarrow> trace \<Rightarrow> Part list \<Rightarrow> string option \<times> trace" where
  "send_parts env tr [] = (None, tr)"
| "send_parts env tr (Text text # parts) =
     (case stream_send env tr \<lparr>Chunk = text, IsComplete = False\<rparr> of
        Some err \<Rightarrow>
          (Some (''failed to send chunk: '' @ err),
           tr @ [StreamSend \<lparr>Chunk = text, IsComplete = False\<rparr>])
      | None \<Rightarrow> send_parts env (tr @ [StreamSend \<lparr>Chunk = text, IsComplete = False\<rparr>]) parts)"
| "send_parts env tr (OtherPart # parts) = send_parts env tr parts"

text \<open>The loop of lines 235-248 over the candidates of one response.\<close>

fun send_candidates ::
  "env \<Rightarrow> trace \<Rightarrow> Candidate list \<Rightarrow> string option outcome \<times> trace" where
  "send_candidates env tr [] = (Return None, tr)"
| "send_candidates env tr (cand # cands) =
     (case Content cand of
        None \<Rightarrow> (Panic, tr)
      | Some content \<Rightarrow>
          (case send_parts env tr (Parts content) of
             (Some err, tr1) \<Rightarrow> (Return (Some err), tr1)
           | (None, tr1) \<Rightarrow> send_candidates env tr1 cands))"

text \<open>
  The \<open>for\<close> loop of lines 220-249. Nothing bounds the number of responses the iterator
  yields, so the loop need not end: \<open>None\<close> is a run that never returns.
\<close>

partial_function (option) stream_loop ::
  "env \<Rightarrow> trace \<Rightarrow> (string option outcome \<times> trace) option" where
  "stream_loop env tr =
     (case iter_next env tr of
        Inl err \<Rightarrow>
          if end_of_stream err then
            Some (Return (stream_send env (tr @ [IterNext (Inl err)])
                            \<lparr>Chunk = '''', IsComplete = True\<rparr>),
                  tr @ [IterNext (Inl err), StreamSend \<lparr>Chunk = '''', IsComplete = True\<rparr>])
          else Some (Return (Some (''streaming failed: '' @ err)), tr @ [IterNext (Inl err)])
      | Inr resp \<Rightarrow>
          (case send_candidates env (tr @ [IterNext (Inr resp)]) (Candidates resp) of
             (Panic, tr1) \<Rightarrow> Some (Panic, tr1)
           | (Return (Some err), tr1) \<Rightarrow> Some (Return (Some err), tr1)
           | (Return None, tr1) \<Rightarrow> stream_loop env tr1))"

definition streamAdviceGeneration ::
  "env \<Rightarrow> trace \<Rightarrow> string list \<Rightarrow> (string option outcome \<times> trace) option" where
  "streamAdviceGeneration env tr weatherData =
     stream_loop env (tr @ [GenerateContentStream model_name (prompt weatherData)])"

text \<open>The loop of lines 152-169, the same statements as the loop of \<open>GetAdvice\<close>.\<close>

fun StreamAdvice_cities ::
  "env \<Rightarrow> trace \<Rightarrow> CityData list \<Rightarrow> string list \<Rightarrow> (string + string list) \<times> trace" where
  "StreamAdvice_cities env tr [] weatherData = (Inr weatherData, tr)"
| "StreamAdvice_cities env tr (city # cities) weatherData =
     (case geocodeCity env tr city '''' of
        (Inl err, tr1) \<Rightarrow>
          (Inl (''geocoding failed for '' @ CityData.Location city @ '': '' @ err),
           tr1 @ [advisorRequests ''error''])
      | (Inr (lat, lon), tr1) \<Rightarrow>
          (case GetCurrentWeather env tr1 \<lparr>WeatherRequest.Latitude = lat, Longitude = lon\<rparr> of
             (Inl err, tr2) \<Rightarrow>
               (Inl (''weather request failed for '' @ CityData.Location city @ '': '' @ err),
                tr2 @ [advisorRequests ''error''])
           | (Inr weatherResp, tr2) \<Rightarrow>
               StreamAdvice_cities env tr2 cities (weatherData @ [weatherInfo env weatherResp])))"

definition StreamAdvice ::
  "env \<Rightarrow> trace \<Rightarrow> AdvisorRequest \<Rightarrow> (string option outcome \<times> trace) option" where
  "StreamAdvice env tr req =
     (case StreamAdvice_cities env tr (Cities req) [] of
        (Inl err, tr1) \<Rightarrow> Some (Return (Some err), tr1)
      | (Inr weatherData, tr1) \<Rightarrow>
          (case streamAdviceGeneration env tr1 weatherData of
             None \<Rightarrow> None
           | Some (Panic, tr2) \<Rightarrow> Some (Panic, tr2)
           | Some (Return (Some err), tr2) \<Rightarrow>
               Some (Return (Some (''advice generation failed: '' @ err)),
                     tr2 @ [advisorRequests ''error''])
           | Some (Return None, tr2) \<Rightarrow>
               Some (Return None, tr2 @ [advisorRequests ''success''])))"


subsection \<open>Vocabulary of the properties\<close>

text \<open>
  The events a city contributes to the trace: the geocoding request (none for a curated
  name), then the weather request and the counter of the weather service.
\<close>

definition geocode_events :: "env \<Rightarrow> CityData \<Rightarrow> trace" where
  "geocode_events env city =
     (case map_of cityCoords (CityData.Location city) of
        Some coords \<Rightarrow> []
      | None \<Rightarrow> [HttpGet (geocode_url env city)])"

definition fetch_events :: "env \<Rightarrow> float64 \<times> float64 \<Rightarrow> string \<Rightarrow> trace" where
  "fetch_events env coords status =
     [HttpGet (weather_url env \<lparr>WeatherRequest.Latitude = fst coords, Longitude = snd coords\<rparr>),
      weatherRequests status]"

definition city_events :: "env \<Rightarrow> CityData \<Rightarrow> float64 \<times> float64 \<Rightarrow> trace" where
  "city_events env city coords = geocode_events env city @ fetch_events env coords ''success''"

definition coordinate_label :: "env \<Rightarrow> float64 \<times> float64 \<Rightarrow> string" where
  "coordinate_label env coords = sprintf_2f env (fst coords) @ '','' @ sprintf_2f env (snd coords)"

text \<open>Events of resolving and fetching: HTTP requests and counters, nothing of the composer.\<close>

fun transport_event :: "event \<Rightarrow> bool" where
  "transport_event (HttpGet url) = True"
| "transport_event (CounterInc name status) = True"
| "transport_event ev = False"



text \<open>The two kinds of fragment, and the fragments a trace says were sent.\<close>

definition non_final :: "string \<Rightarrow> StreamAdviceResponse" where
  "non_final text = \<lparr>Chunk = text, IsComplete = False\<rparr>"

definition final_fragment :: StreamAdviceResponse where
  "final_fragment = \<lparr>Chunk = '''', IsComplete = True\<rparr>"

fun sent :: "trace \<Rightarrow> StreamAdviceResponse list" where
  "sent [] = []"
| "sent (StreamSend msg # evs) = msg # sent evs"
| "sent (ev # evs) = sent evs"

subsection \<open>A sample world\<close>

text \<open>
  The sample world: the geocoding provider knows Reykjavik and nothing else, the weather
  provider reports the same conditions everywhere, the generative backend answers with
  one candidate, the stream yields that answer once and is then exhausted (the iterator
  returns its sentinel), and every send succeeds. The three float formatters are tables,
  right on the values of the examples; the query escape is right on letters and spaces.
\<close>

definition sample_weather :: OpenMeteoResponse where
  "sample_weather =
     \<lparr> Current = \<lparr> OpenMeteoCurrent.Temperature = 21.5, OpenMeteoCurrent.Humidity = 40,
                   OpenMeteoCurrent.WindSpeed = 3.2, WindDir = 180, WeatherCode = 2 \<rparr>,
       CurrentUnits = \<lparr> OpenMeteoCurrentUnits.Temperature = ''C'',
                        OpenMeteoCurrentUnits.WindSpeed = ''km/h'' \<rparr> \<rparr>"

definition sample_2f :: "float64 \<Rightarrow> string" where
  "sample_2f x =
     (if x = 40.7128 then ''40.71'' else if x = -74.0060 then ''-74.01''
      else if x = 51.5074 then ''51.51'' else if x = -0.1278 then ''-0.13''
      else if x = 64.1466 then ''64.15'' else if x = -21.9426 then ''-21.94'' else ''0.00'')"

definition sample_1f :: "float64 \<Rightarrow> string" where
  "sample_1f x = (if x = 21.5 then ''21.5'' else if x = 3.2 then ''3.2'' else ''0.0'')"

definition sample_f :: "float64 \<Rightarrow> string" where
  "sample_f x =
     (if x = 40.7128 then ''40.712800'' else if x = -74.0060 then ''-74.006000''
      else if x = 51.5074 then ''51.507400'' else if x = -0.1278 then ''-0.127800''
      else if x = 64.1466 then ''64.146600'' else if x = -21.9426 then ''-21.942600''
      else ''0.000000'')"

definition sample_escape :: "string \<Rightarrow> string" where
  "sample_escape s = map (\<lambda>c. if c = CHR '' '' then CHR ''+'' else c) s"

definition reykjavik_result :: GeocodeResult where
  "reykjavik_result =
     \<lparr> Name = ''Reykjavik'', GeocodeResult.Latitude = 64.1466, GeocodeResult.Longitude = -21.9426,
       GeocodeResult.Country = ''Iceland'', Admin1 = ''Capital Region'' \<rparr>"

fun is_IterNext :: "event \<Rightarrow> bool" where
  "is_IterNext (IterNext r) = True"
| "is_IterNext e = False"

definition sample_answer :: GenerateContentResponse where
  "sample_answer =
     \<lparr>Candidates =
        [\<lparr>Content = Some \<lparr>Parts = [Text ''Take '', OtherPart, Text ''an umbrella.'']\<rparr>\<rparr>]\<rparr>"

definition sample_env :: env where
  "sample_env =
     \<lparr> http_get = (\<lambda>tr url. if prefix ''https://geocoding-api.open-meteo.com/v1/search?name=Reykjavik'' url
                                then Response 200 ''{results:[Reykjavik]}'' else Response 200 ''{}''),
       decode_geocode = (\<lambda>body. if body = ''{}'' then Inr \<lparr>Results = []\<rparr>
                                  else Inr \<lparr>Results = [reykjavik_result]\<rparr>),
       decode_weather = (\<lambda>body. Inr sample_weather),
       query_escape = sample_escape,
       sprintf_f = sample_f,
       sprintf_1f = sample_1f,
       sprintf_2f = sample_2f,
       now_unix = (\<lambda>tr. 1793000000),
       generate_content = (\<lambda>tr model prompt. Inr sample_answer),
       iter_next = (\<lambda>tr. if list_ex is_IterNext tr then Inl iterator_Done else Inr sample_answer),
       stream_send = (\<lambda>tr msg. None) \<rparr>"

text \<open>Worlds that differ from the sample world in one oracle.\<close>

definition unreachable_env :: env where
  "unreachable_env = sample_env\<lparr>http_get := (\<lambda>tr url. TransportError ''dial tcp: i/o timeout'')\<rparr>"

definition overloaded_env :: env where
  "overloaded_env = sample_env\<lparr>http_get := (\<lambda>tr url. Response 503 ''Service Unavailable'')\<rparr>"

definition unseen_code_env :: env where
  "unseen_code_env =
     sample_env\<lparr>decode_weather :=
       (\<lambda>body. Inr (sample_weather\<lparr>Current := (Current sample_weather)\<lparr>WeatherCode := 4\<rparr>\<rparr>))\<rparr>"

definition mute_env :: env where
  "mute_env = sample_env\<lparr>generate_content := (\<lambda>tr model p. Inr \<lparr>Candidates = []\<rparr>)\<rparr>"

definition wordless_answer :: GenerateContentResponse where
  "wordless_answer = \<lparr>Candidates = [\<lparr>Content = Some \<lparr>Parts = []\<rparr>\<rparr>]\<rparr>"

definition wordless_env :: env where
  "wordless_env = sample_env\<lparr>generate_content := (\<lambda>tr model p. Inr wordless_answer)\<rparr>"

definition contentless_answer :: GenerateContentResponse where
  "contentless_answer = \<lparr>Candidates = [\<lparr>Content = None\<rparr>]\<rparr>"

definition contentless_env :: env where
  "contentless_env = sample_env\<lparr>generate_content := (\<lambda>tr model p. Inr contentless_answer)\<rparr>"

text \<open>
  A stream that is cut after the first response: the iterator returns the error of a
  connection that closed in the middle of a message, \<open>io.ErrUnexpectedEOF\<close>.
\<close>

definition unexpected_EOF :: string where
  "unexpected_EOF = ''unexpected EOF''"

definition truncated_env :: env where
  "truncated_env =
     sample_env\<lparr>iter_next :=
       (\<lambda>tr. if list_ex is_IterNext tr then Inl unexpected_EOF else Inr sample_answer)\<rparr>"


text \<open>Cities and requests.\<close>

definition new_york :: CityData where
  "new_york = \<lparr>CityData.Location = ''New York'', State = ''NY'', CityData.Country = ''US''\<rparr>"

definition new_york_lowercase :: CityData where
  "new_york_lowercase = \<lparr>CityData.Location = ''new york'', State = '''', CityData.Country = ''''\<rparr>"

definition london :: CityData where
  "london = \<lparr>CityData.Location = ''London'', State = '''', CityData.Country = ''UK''\<rparr>"

definition reykjavik :: CityData where
  "reykjavik = \<lparr>CityData.Location = ''Reykjavik'', State = '''', CityData.Country = ''IS''\<rparr>"

definition nowhereville :: CityData where
  "nowhereville = \<lparr>CityData.Location = ''Nowhereville'', State = '''', CityData.Country = ''''\<rparr>"

definition new_york_request :: WeatherRequest where
  "new_york_request = \<lparr>WeatherRequest.Latitude = 40.7128, Longitude = -74.0060\<rparr>"

definition london_request :: AdvisorRequest where
  "london_request = \<lparr>Cities = [london]\<rparr>"

definition pair_request :: AdvisorRequest where
  "pair_request = \<lparr>Cities = [new_york, london]\<rparr>"


definition lost_request :: AdvisorRequest where
  "lost_request = \<lparr>Cities = [new_york, nowhereville, london]\<rparr>"

text \<open>What the sample world is expected to produce.\<close>

definition nowhereville_url :: string where
  "nowhereville_url =
     ''https://geocoding-api.open-meteo.com/v1/search?name=Nowhereville&count=1&language=en&format=json''"

definition reykjavik_url :: string where
  "reykjavik_url =
     ''https://geocoding-api.open-meteo.com/v1/search?name=Reykjavik&count=1&language=en&format=json''"

definition forecast_url :: "string \<Rightarrow> string \<Rightarrow> string" where
  "forecast_url lat lon =
     ''https://api.open-meteo.com/v1/forecast?latitude='' @ lat @ ''&longitude='' @ lon @
     ''&current=temperature_2m,relative_humidity_2m,wind_speed_10m,wind_direction_10m,weather_code&timezone=auto''"

definition sample_response :: "string \<Rightarrow> WeatherResponse" where
  "sample_response label =
     \<lparr> WeatherResponse.Location = label, WeatherResponse.Temperature = 21.5,
       FeelsLike = 21.5, TempMin = 21.5, TempMax = 21.5, Pressure = 1013,
       WeatherResponse.Humidity = 40, WeatherResponse.WindSpeed = 3.2, WindDeg = 180,
       Timestamp = 1793000000, Description = ''partly cloudy'' \<rparr>"

definition sample_line :: "string \<Rightarrow> string" where
  "sample_line label =
     ''City: '' @ label @ '', Temp: 21.5'' @ degree_sign @
     ''C, Condition: partly cloudy, Humidity: 40%, Wind: 3.2 m/s''"

definition lost_message :: string where
  "lost_message =
     ''location not found: Nowhereville (try: New York, London, Tokyo, Paris, Los Angeles, Chicago, Sydney)''"

definition new_york_trace :: trace where
  "new_york_trace = [HttpGet (forecast_url ''40.712800'' ''-74.006000''), weatherRequests ''success'']"

definition london_trace :: trace where
  "london_trace = [HttpGet (forecast_url ''51.507400'' ''-0.127800''), weatherRequests ''success'']"



definition london_stream :: trace where
  "london_stream =
     london_trace @
     [GenerateContentStream model_name (prompt [sample_line ''51.51,-0.13'']),
      IterNext (Inr sample_answer),
      StreamSend (non_final ''Take ''), StreamSend (non_final ''an umbrella.'')]"

section \<open>Properties\<close>

subsection \<open>Facts about the model\<close>

lemma geocodeCity_curated:
  "map_of cityCoords (CityData.Location city) = Some c \<Longrightarrow> geocodeCity env tr city apiKey = (Inr c, tr)"
  by (simp add: geocodeCity_def)

lemma geocodeCity_events:
  "geocodeCity env tr city apiKey = (r, tr') \<Longrightarrow> tr' = tr @ geocode_events env city"
  by (auto simp: geocodeCity_def geocode_events_def Let_def
      split: option.splits http_reply.splits if_splits sum.splits list.splits)

lemma GetCurrentWeather_events:
  "GetCurrentWeather env tr req = (r, tr') \<Longrightarrow>
   tr' = tr @ [HttpGet (weather_url env req), weatherRequests (case r of Inl err \<Rightarrow> ''error'' | Inr resp \<Rightarrow> ''success'')]"
  by (auto simp: GetCurrentWeather_def Let_def split: http_reply.splits if_splits sum.splits)

lemma GetCurrentWeather_Location:
  "GetCurrentWeather env tr req = (Inr resp, tr') \<Longrightarrow>
   WeatherResponse.Location resp =
     coordinate_label env (WeatherRequest.Latitude req, WeatherRequest.Longitude req)"
  by (auto simp: GetCurrentWeather_def Let_def coordinate_label_def
      split: http_reply.splits if_splits sum.splits)

lemma StreamAdvice_cities_eq:
  "StreamAdvice_cities env tr cities weatherData = GetAdvice_cities env tr cities weatherData"
  by (induction cities arbitrary: tr weatherData) (simp_all split: prod.splits sum.splits)

lemma cities_success:
  "GetAdvice_cities env tr cities wd0 = (Inr wd, tr') \<Longrightarrow>
   \<exists>rs. list_all2 (\<lambda>city r.
            (\<forall>c. map_of cityCoords (CityData.Location city) = Some c \<longrightarrow> fst r = c) \<and>
            (\<exists>tr_a tr_b. geocodeCity env tr_a city '''' = (Inr (fst r), tr_b)) \<and>
            WeatherResponse.Location (snd r) = coordinate_label env (fst r)) cities rs
      \<and> wd = wd0 @ map (\<lambda>r. weatherInfo env (snd r)) rs
      \<and> tr' = tr @ concat (map2 (city_events env) cities (map fst rs))"
proof (induction cities arbitrary: tr wd0)
  case Nil
  then show ?case by simp
next
  case (Cons city cities)
  from Cons.prems obtain lat lon tr1 where
    geo: "geocodeCity env tr city '''' = (Inr (lat, lon), tr1)"
    by (auto split: prod.splits sum.splits)
  from Cons.prems geo obtain resp tr2 where
    fetch: "GetCurrentWeather env tr1 \<lparr>WeatherRequest.Latitude = lat, Longitude = lon\<rparr> = (Inr resp, tr2)"
    by (auto split: prod.splits sum.splits)
  from Cons.prems geo fetch have
    rest: "GetAdvice_cities env tr2 cities (wd0 @ [weatherInfo env resp]) = (Inr wd, tr')"
    by simp
  from Cons.IH [OF rest] obtain rs where
    rs: "list_all2 (\<lambda>city r.
            (\<forall>c. map_of cityCoords (CityData.Location city) = Some c \<longrightarrow> fst r = c) \<and>
            (\<exists>tr_a tr_b. geocodeCity env tr_a city '''' = (Inr (fst r), tr_b)) \<and>
            WeatherResponse.Location (snd r) = coordinate_label env (fst r)) cities rs"
    and wd: "wd = (wd0 @ [weatherInfo env resp]) @ map (\<lambda>r. weatherInfo env (snd r)) rs"
    and tr': "tr' = tr2 @ concat (map2 (city_events env) cities (map fst rs))"
    by blast
  have tr1: "tr1 = tr @ geocode_events env city"
    using geocodeCity_events [OF geo] .
  have tr2: "tr2 = tr1 @ fetch_events env (lat, lon) ''success''"
    using GetCurrentWeather_events [OF fetch] by (simp add: fetch_events_def)
  have curated: "\<forall>c. map_of cityCoords (CityData.Location city) = Some c \<longrightarrow> (lat, lon) = c"
    using geo by (auto simp: geocodeCity_curated)
  have label: "WeatherResponse.Location resp = coordinate_label env (lat, lon)"
    using GetCurrentWeather_Location [OF fetch] by simp
  let ?rs = "((lat, lon), resp) # rs"
  have "list_all2 (\<lambda>city r.
            (\<forall>c. map_of cityCoords (CityData.Location city) = Some c \<longrightarrow> fst r = c) \<and>
            (\<exists>tr_a tr_b. geocodeCity env tr_a city '''' = (Inr (fst r), tr_b)) \<and>
            WeatherResponse.Location (snd r) = coordinate_label env (fst r)) (city # cities) ?rs"
    using rs curated label geo by auto
  moreover have "wd = wd0 @ map (\<lambda>r. weatherInfo env (snd r)) ?rs"
    using wd by simp
  moreover have "tr' = tr @ concat (map2 (city_events env) (city # cities) (map fst ?rs))"
    using tr' tr1 tr2 by (simp add: city_events_def)
  ultimately show ?case by blast
qed

lemma curated_hint:
  "strings_Join (map fst cityCoords) '', '' =
   ''New York, London, Tokyo, Paris, Los Angeles, Chicago, Sydney''"
  by (simp add: cityCoords_def)

lemma weather_url_forecast:
  "weather_url env req =
   forecast_url (sprintf_f env (WeatherRequest.Latitude req)) (sprintf_f env (WeatherRequest.Longitude req))"
  by (simp add: weather_url_def forecast_url_def)

lemma descriptions_distinct: "distinct (map fst descriptions)"
  by (simp add: descriptions_def)

lemma cities_append:
  "GetAdvice_cities env tr (xs @ ys) wd0 =
     (case GetAdvice_cities env tr xs wd0 of
        (Inl err, tr1) \<Rightarrow> (Inl err, tr1)
      | (Inr wd, tr1) \<Rightarrow> GetAdvice_cities env tr1 ys wd)"
  by (induction xs arbitrary: tr wd0) (auto split: prod.splits sum.splits)


lemma failing_city_step:
  assumes "GetAdvice_cities env tr before [] = (Inr weatherData, tr1)"
  shows "GetAdvice_cities env tr (before @ city # after) [] =
           GetAdvice_cities env tr1 (city # after) weatherData"
  using assms by (simp add: cities_append)

lemma cities_prefix_events:
  assumes "GetAdvice_cities env tr before [] = (Inr weatherData, tr1)"
  shows "\<exists>coords. length coords = length before \<and>
           tr1 = tr @ concat (map2 (city_events env) before coords)"
proof -
  from cities_success [OF assms]
  obtain rs :: "((float64 \<times> float64) \<times> WeatherResponse) list" where
    "list_all2 (\<lambda>city r.

            (\<forall>c. map_of cityCoords (CityData.Location city) = Some c \<longrightarrow> fst r = c) \<and>
            (\<exists>tr_a tr_b. geocodeCity env tr_a city '''' = (Inr (fst r), tr_b)) \<and>
            WeatherResponse.Location (snd r) = coordinate_label env (fst r)) before rs"
    and "tr1 = tr @ concat (map2 (city_events env) before (map fst rs))"
    by blast

  then have "length (map fst rs) = length before \<and>
      tr1 = tr @ concat (map2 (city_events env) before (map fst rs))"
    by (auto dest: list_all2_lengthD)
  then show ?thesis by blast
qed

lemma city_events_transport: "list_all transport_event (city_events env city coords)"
  by (simp add: city_events_def geocode_events_def fetch_events_def weatherRequests_def
      split: option.splits)

lemma cities_events_transport:
  "list_all transport_event (concat (map2 (city_events env) cities coords))"
  by (induction cities arbitrary: coords)
    (simp, case_tac coords, simp_all add: city_events_transport)

lemma text_parts_concat: "text_parts parts = concat (map (\<lambda>p. case p of Text text \<Rightarrow> text | OtherPart \<Rightarrow> []) parts)"
  by (induction parts rule: text_parts.induct) simp_all

lemma generate_content_frame:
  "geocodeCity (env\<lparr>generate_content := g\<rparr>) = geocodeCity env"
  "GetCurrentWeather (env\<lparr>generate_content := g\<rparr>) = GetCurrentWeather env"
  "weatherInfo (env\<lparr>generate_content := g\<rparr>) = weatherInfo env"
  by (auto simp: fun_eq_iff geocodeCity_def geocode_url_def GetCurrentWeather_def Let_def
      weather_url_def weatherInfo_def
      split: option.splits http_reply.splits sum.splits list.splits)

lemma GetAdvice_cities_frame:
  "GetAdvice_cities (env\<lparr>generate_content := g\<rparr>) tr cities wd = GetAdvice_cities env tr cities wd"
  by (induction cities arbitrary: tr wd)
    (simp_all add: generate_content_frame split: prod.splits sum.splits)

lemma iter_next_frame:
  "geocodeCity (env\<lparr>iter_next := g\<rparr>) = geocodeCity env"
  "GetCurrentWeather (env\<lparr>iter_next := g\<rparr>) = GetCurrentWeather env"
  "weatherInfo (env\<lparr>iter_next := g\<rparr>) = weatherInfo env"
  by (auto simp: fun_eq_iff geocodeCity_def geocode_url_def GetCurrentWeather_def Let_def
      weather_url_def weatherInfo_def
      split: option.splits http_reply.splits sum.splits list.splits)

lemma GetAdvice_cities_iter_frame:
  "GetAdvice_cities (env\<lparr>iter_next := g\<rparr>) tr cities wd = GetAdvice_cities env tr cities wd"
  by (induction cities arbitrary: tr wd)
    (simp_all add: iter_next_frame split: prod.splits sum.splits)





subsection \<open>Facts about the streaming loop\<close>

lemma sent_append: "sent (xs @ ys) = sent xs @ sent ys"
  by (induction xs rule: sent.induct) simp_all

lemma stream_loop_failure_step:
  "iter_next env tr = Inl err \<Longrightarrow> \<not> end_of_stream err \<Longrightarrow>
   stream_loop env tr =
     Some (Return (Some (''streaming failed: '' @ err)), tr @ [IterNext (Inl err)])"
  by (subst stream_loop.simps) simp

lemma stream_loop_end_step:
  "iter_next env tr = Inl err \<Longrightarrow> end_of_stream err \<Longrightarrow>
   stream_loop env tr =
     Some (Return (stream_send env (tr @ [IterNext (Inl err)]) final_fragment),
           tr @ [IterNext (Inl err), StreamSend final_fragment])"
  by (subst stream_loop.simps) (simp add: final_fragment_def)

lemma stream_loop_response_step:
  "iter_next env tr = Inr resp \<Longrightarrow>
   send_candidates env (tr @ [IterNext (Inr resp)]) (Candidates resp) = (Return None, tr1) \<Longrightarrow>
   stream_loop env tr = stream_loop env tr1"
  by (subst stream_loop.simps) simp

text \<open>A candidate without a content stops the loop with a panic, at line 236.\<close>

lemma stream_loop_panic_step:
  "iter_next env tr = Inr resp \<Longrightarrow> Candidates resp = cand # cands \<Longrightarrow> Content cand = None \<Longrightarrow>
   stream_loop env tr = Some (Panic, tr @ [IterNext (Inr resp)])"
  by (subst stream_loop.simps) simp

text \<open>
  The test of line 224 misses the iterator's sentinel, and takes the error of a cut
  connection for the end of the stream.
\<close>


lemma Done_not_end_of_stream: "\<not> end_of_stream iterator_Done"
  by (simp add: end_of_stream_def iterator_Done_def)

lemma unexpected_EOF_end_of_stream: "end_of_stream unexpected_EOF"
  by (simp add: end_of_stream_def unexpected_EOF_def)

lemma unexpected_EOF_not_Done: "unexpected_EOF \<noteq> iterator_Done"
  by (simp add: unexpected_EOF_def iterator_Done_def)

text \<open>So a stream that ends the normal way is reported as a failure, whatever came before.\<close>

lemma exhaustion_fails:
  "iter_next env tr = Inl iterator_Done \<Longrightarrow>
   stream_loop env tr =
     Some (Return (Some (''streaming failed: '' @ iterator_Done)), tr @ [IterNext (Inl iterator_Done)])"
  by (rule stream_loop_failure_step [OF _ Done_not_end_of_stream])

subsection \<open>The sample world, evaluated\<close>

lemma sample_oracles:
  "decode_weather sample_env body = Inr sample_weather"
  "query_escape sample_env s = sample_escape s"
  "sprintf_f sample_env = sample_f"
  "sprintf_1f sample_env = sample_1f"
  "sprintf_2f sample_env = sample_2f"
  "now_unix sample_env tr = 1793000000"
  "generate_content sample_env tr model p = Inr sample_answer"
  "stream_send sample_env tr msg = None"
  "decode_geocode sample_env ''{}'' = Inr \<lparr>Results = []\<rparr>"
  "decode_geocode sample_env ''{results:[Reykjavik]}'' = Inr \<lparr>Results = [reykjavik_result]\<rparr>"
  by (simp_all add: sample_env_def)

lemma nowhereville_urls:
  "geocode_url sample_env nowhereville = nowhereville_url"
  "geocode_url unreachable_env nowhereville = nowhereville_url"
  "geocode_url overloaded_env nowhereville = nowhereville_url"
  by (simp_all add: geocode_url_def nowhereville_def nowhereville_url_def sample_env_def
      unreachable_env_def overloaded_env_def sample_escape_def)

lemma nowhereville_replies:
  "http_get sample_env tr nowhereville_url = Response 200 ''{}''"
  "http_get unreachable_env tr url = TransportError ''dial tcp: i/o timeout''"
  "http_get overloaded_env tr url = Response 503 ''Service Unavailable''"
  by (simp_all add: sample_env_def unreachable_env_def overloaded_env_def nowhereville_url_def)

lemma nowhereville_absent: "map_of cityCoords (CityData.Location nowhereville) = None"
  by (simp add: cityCoords_def nowhereville_def)

lemma nowhereville_name: "CityData.Location nowhereville = ''Nowhereville''"
  by (simp add: nowhereville_def)

lemma sprintf_d_503: "sprintf_d 503 = ''503''"
  by (simp add: sprintf_d_def show_nat.simps)

lemma sprintf_d_40: "sprintf_d 40 = ''40''"
  by (simp add: sprintf_d_def show_nat.simps)

lemma sample_weatherInfo: "weatherInfo sample_env (sample_response label) = sample_line label"
  by (simp add: weatherInfo_def sample_response_def sample_line_def sample_oracles sample_1f_def
      sprintf_d_40)

lemma sample_description: "getWeatherDescription 2 = ''partly cloudy''"
  by (simp add: getWeatherDescription_def descriptions_def)

lemma sample_forecast_reply:
  "http_get sample_env tr (forecast_url lat lon) = Response 200 ''{}''"
  by (simp add: sample_env_def forecast_url_def)

lemma sample_fetch:
  "GetCurrentWeather sample_env tr \<lparr>WeatherRequest.Latitude = lat, Longitude = lon\<rparr> =
     (Inr (sample_response (sample_2f lat @ '','' @ sample_2f lon)),
      tr @ [HttpGet (forecast_url (sample_f lat) (sample_f lon)), weatherRequests ''success''])"
  by (simp add: GetCurrentWeather_def weather_url_forecast sample_oracles sample_response_def
      sample_weather_def sample_description sample_forecast_reply)

lemmas sample_eval =
  sample_fetch sample_f_def sample_2f_def sample_weatherInfo

lemma sample_resolutions:
  "geocodeCity sample_env tr new_york '''' = (Inr (40.7128, -74.0060), tr)"
  "geocodeCity sample_env tr london '''' = (Inr (51.5074, -0.1278), tr)"
  "geocodeCity sample_env tr reykjavik '''' = (Inr (64.1466, -21.9426), tr @ [HttpGet reykjavik_url])"
  "geocodeCity sample_env tr nowhereville '''' =
     (Inl ''location not found: Nowhereville (try: New York, London, Tokyo, Paris, Los Angeles, Chicago, Sydney)'',
      tr @ [HttpGet nowhereville_url])"
  by (simp_all add: geocodeCity_def cityCoords_def new_york_def london_def reykjavik_def
      nowhereville_def geocode_url_def reykjavik_url_def nowhereville_url_def sample_env_def
      reykjavik_result_def sample_escape_def)

lemma sample_cities:
  "GetAdvice_cities sample_env [] [new_york, reykjavik] [] =
     (Inr [sample_line ''40.71,-74.01'', sample_line ''64.15,-21.94''],
      [HttpGet (forecast_url ''40.712800'' ''-74.006000''), weatherRequests ''success'',
       HttpGet reykjavik_url,
       HttpGet (forecast_url ''64.146600'' ''-21.942600''), weatherRequests ''success''])"
  by (simp add: sample_resolutions sample_eval)

lemma unseen_code_oracles:
  "http_get unseen_code_env = http_get sample_env"
  "sprintf_f unseen_code_env = sample_f"
  "sprintf_2f unseen_code_env = sample_2f"
  "now_unix unseen_code_env tr = 1793000000"
  "decode_weather unseen_code_env body =
     Inr (sample_weather\<lparr>Current := (Current sample_weather)\<lparr>WeatherCode := 4\<rparr>\<rparr>)"
  by (simp_all add: unseen_code_env_def sample_env_def)

lemma unseen_description: "getWeatherDescription 4 = ''unknown''"
  by (simp add: getWeatherDescription_def descriptions_def)

lemma unseen_code_fetch:
  "GetCurrentWeather unseen_code_env [] new_york_request =
     (Inr ((sample_response ''40.71,-74.01'')\<lparr>Description := ''unknown''\<rparr>),
      [HttpGet (forecast_url ''40.712800'' ''-74.006000''), weatherRequests ''success''])"
  by (simp add: GetCurrentWeather_def Let_def weather_url_forecast unseen_code_oracles
      sample_response_def sample_weather_def sample_forecast_reply new_york_request_def
      sample_f_def sample_2f_def unseen_description)


lemma overloaded_oracles:
  "sprintf_f overloaded_env = sample_f"
  "http_get overloaded_env tr url = Response 503 ''Service Unavailable''"
  by (simp_all add: overloaded_env_def sample_env_def)

lemma overloaded_fetch:
  "GetCurrentWeather overloaded_env tr \<lparr>WeatherRequest.Latitude = 40.7128, Longitude = -74.0060\<rparr> =
     (Inl ''API status: 503'',
      tr @ [HttpGet (forecast_url ''40.712800'' ''-74.006000''), weatherRequests ''error''])"
  by (simp add: GetCurrentWeather_def Let_def weather_url_forecast overloaded_oracles sample_f_def
      sprintf_d_503)

lemma new_york_curated: "map_of cityCoords (CityData.Location new_york) = Some (40.7128, -74.0060)"
  by (simp add: cityCoords_def new_york_def)

lemma city_names:
  "CityData.Location new_york = ''New York''"
  "CityData.Location london = ''London''"
  "CityData.Location reykjavik = ''Reykjavik''"
  by (simp_all add: new_york_def london_def reykjavik_def)

lemma new_york_cities:
  "GetAdvice_cities sample_env [] [new_york] [] =
     (Inr [sample_line ''40.71,-74.01''],
      [HttpGet (forecast_url ''40.712800'' ''-74.006000''), weatherRequests ''success''])"
  by (simp add: sample_resolutions sample_eval)

lemma lost_resolution:
  "geocodeCity sample_env new_york_trace nowhereville '''' =
     (Inl lost_message, new_york_trace @ [HttpGet nowhereville_url])"
  by (simp add: sample_resolutions lost_message_def)

lemma overloaded_resolution:
  "geocodeCity overloaded_env [] new_york '''' = (Inr (40.7128, -74.0060), [])"
  using new_york_curated by (rule geocodeCity_curated)

lemma london_cities:
  "GetAdvice_cities sample_env [] (Cities london_request) [] = (Inr [sample_line ''51.51,-0.13''], london_trace)"
  by (simp add: london_request_def london_trace_def sample_resolutions sample_eval)

lemma london_cities_mute:
  "GetAdvice_cities mute_env [] (Cities london_request) [] = (Inr [sample_line ''51.51,-0.13''], london_trace)"
  "GetAdvice_cities wordless_env [] (Cities london_request) [] = (Inr [sample_line ''51.51,-0.13''], london_trace)"
  by (simp_all add: mute_env_def wordless_env_def GetAdvice_cities_frame london_cities)

lemma no_IterNext_london:
  "\<not> list_ex is_IterNext (london_trace @ [GenerateContentStream model p])"
  by (simp add: london_trace_def weatherRequests_def)

lemma london_stream_iterated: "list_ex is_IterNext london_stream"
  by (simp add: london_stream_def)

lemma london_stream_sent:
  "sent london_stream = [non_final ''Take '', non_final ''an umbrella.'']"
  by (simp add: london_stream_def london_trace_def weatherRequests_def)



lemma backend_answers:
  "generate_content sample_env tr model p = Inr sample_answer"
  "generate_content mute_env tr model p = Inr \<lparr>Candidates = []\<rparr>"
  "generate_content wordless_env tr model p = Inr wordless_answer"
  "generate_content contentless_env tr model p = Inr contentless_answer"
  by (simp_all add: sample_env_def mute_env_def wordless_env_def contentless_env_def)

lemma london_cities_contentless:
  "GetAdvice_cities contentless_env [] (Cities london_request) [] =
     (Inr [sample_line ''51.51,-0.13''], london_trace)"
  by (simp add: contentless_env_def GetAdvice_cities_frame london_cities)

lemma london_request_cities: "Cities london_request \<noteq> []"
  by (simp add: london_request_def)

text \<open>
  A candidate without a content makes \<open>GetAdvice\<close> panic after the prompt was sent: the
  read of \<open>Content.Parts\<close> at line 200 has no check. No counter is incremented.
\<close>

lemma contentless_candidate_panics:
  "GetAdvice contentless_env [] london_request =
     (Panic, london_trace @ [GenerateContent model_name (prompt [sample_line ''51.51,-0.13''])])"
  by (simp add: GetAdvice_def london_cities_contentless generateAdvice_def backend_answers
      contentless_answer_def)

lemma london_cities_truncated:
  "StreamAdvice_cities sample_env [] (Cities london_request) [] =
     (Inr [sample_line ''51.51,-0.13''], london_trace)"
  "StreamAdvice_cities truncated_env [] (Cities london_request) [] =
     (Inr [sample_line ''51.51,-0.13''], london_trace)"
  by (simp_all add: StreamAdvice_cities_eq truncated_env_def GetAdvice_cities_iter_frame
      london_cities)

lemma stream_oracles:
  "stream_send sample_env tr msg = None"
  "stream_send truncated_env tr msg = None"
  "iter_next sample_env tr = (if list_ex is_IterNext tr then Inl iterator_Done else Inr sample_answer)"
  "iter_next truncated_env tr = (if list_ex is_IterNext tr then Inl unexpected_EOF else Inr sample_answer)"
  by (simp_all add: sample_env_def truncated_env_def)

lemma london_first_next:
  "iter_next sample_env (london_trace @ [GenerateContentStream model p]) = Inr sample_answer"
  "iter_next truncated_env (london_trace @ [GenerateContentStream model p]) = Inr sample_answer"
  using no_IterNext_london [of model p] by (simp_all only: stream_oracles if_False)

lemma london_last_next:
  "iter_next sample_env london_stream = Inl iterator_Done"
  "iter_next truncated_env london_stream = Inl unexpected_EOF"
  using london_stream_iterated by (simp_all only: stream_oracles if_True)

lemma london_stream_sends:
  "send_candidates sample_env
     (london_trace @ [GenerateContentStream model_name (prompt [sample_line ''51.51,-0.13'']),
                      IterNext (Inr sample_answer)]) (Candidates sample_answer) =
     (Return None, london_stream)"
  "send_candidates truncated_env
     (london_trace @ [GenerateContentStream model_name (prompt [sample_line ''51.51,-0.13'']),
                      IterNext (Inr sample_answer)]) (Candidates sample_answer) =
     (Return None, london_stream)"
  by (simp_all add: sample_answer_def non_final_def stream_oracles london_stream_def)

lemma london_generation:
  "streamAdviceGeneration sample_env london_trace [sample_line ''51.51,-0.13''] =
     Some (Return (Some (''streaming failed: '' @ iterator_Done)),
           london_stream @ [IterNext (Inl iterator_Done)])"
  "streamAdviceGeneration truncated_env london_trace [sample_line ''51.51,-0.13''] =
     Some (Return None, london_stream @ [IterNext (Inl unexpected_EOF), StreamSend final_fragment])"
proof -
  let ?start = "london_trace @ [GenerateContentStream model_name (prompt [sample_line ''51.51,-0.13''])]"
  have "stream_loop sample_env ?start = stream_loop sample_env london_stream"
    using stream_loop_response_step [OF london_first_next(1)] london_stream_sends(1)
    by simp
  then show "streamAdviceGeneration sample_env london_trace [sample_line ''51.51,-0.13''] =
     Some (Return (Some (''streaming failed: '' @ iterator_Done)),
           london_stream @ [IterNext (Inl iterator_Done)])"
    by (simp add: streamAdviceGeneration_def exhaustion_fails [OF london_last_next(1)])
  have "stream_loop truncated_env ?start = stream_loop truncated_env london_stream"
    using stream_loop_response_step [OF london_first_next(2)] london_stream_sends(2)
    by simp

  then show "streamAdviceGeneration truncated_env london_trace [sample_line ''51.51,-0.13''] =
     Some (Return None, london_stream @ [IterNext (Inl unexpected_EOF), StreamSend final_fragment])"
    by (simp add: streamAdviceGeneration_def
        stream_loop_end_step [OF london_last_next(2) unexpected_EOF_end_of_stream] stream_oracles)
qed

lemma london_streamed:
  "StreamAdvice sample_env [] london_request =
     Some (Return (Some (''advice generation failed: streaming failed: '' @ iterator_Done)),
           london_stream @ [IterNext (Inl iterator_Done), advisorRequests ''error''])"
  "StreamAdvice truncated_env [] london_request =
     Some (Return None,
           london_stream @ [IterNext (Inl unexpected_EOF), StreamSend final_fragment,
                            advisorRequests ''success''])"
  by (simp_all add: StreamAdvice_def london_cities_truncated london_generation)

subsection \<open>Failure of one city\<close>

text \<open>
  Claim C1. Let the cities before \<open>city\<close> all resolve and be fetched. If resolving
  \<open>city\<close> fails, or resolving succeeds and fetching its weather fails, then
  \<open>GetAdvice\<close> and \<open>StreamAdvice\<close> both return at once with an error that names the
  step (\<open>geocoding failed for\<close> or \<open>weather request failed for\<close>) and the city. The
  trace then holds the blocks of the earlier cities, the requests of the failing step
  and the error counter, and nothing else: only HTTP requests and counters, so no
  prompt was sent, no fragment was emitted, and the cities after \<open>city\<close> were not
  touched (they do not occur in the outcome at all).
\<close>

theorem failing_city_aborts_request:
  assumes "Cities req = before @ city # after"
    and "GetAdvice_cities env tr before [] = (Inr weatherData, tr1)"
  shows
    "(geocodeCity env tr1 city '''' = (Inl err, tr2) \<longrightarrow>
        GetAdvice env tr req =
          (Return (Inl (''geocoding failed for '' @ CityData.Location city @ '': '' @ err)),
           tr2 @ [advisorRequests ''error''])
      \<and> StreamAdvice env tr req =
          Some (Return (Some (''geocoding failed for '' @ CityData.Location city @ '': '' @ err)),
                tr2 @ [advisorRequests ''error''])
      \<and> (\<exists>coords. length coords = length before \<and>
            tr2 = tr @ concat (map2 (city_events env) before coords) @ geocode_events env city)
      \<and> (\<exists>evs. tr2 @ [advisorRequests ''error''] = tr @ evs \<and> list_all transport_event evs))
     \<and> (geocodeCity env tr1 city '''' = (Inr (lat, lon), tr2) \<and>
        GetCurrentWeather env tr2 \<lparr>WeatherRequest.Latitude = lat, Longitude = lon\<rparr> = (Inl err, tr3) \<longrightarrow>
        GetAdvice env tr req =
          (Return (Inl (''weather request failed for '' @ CityData.Location city @ '': '' @ err)),
           tr3 @ [advisorRequests ''error''])
      \<and> StreamAdvice env tr req =
          Some (Return (Some (''weather request failed for '' @ CityData.Location city @ '': '' @ err)),
                tr3 @ [advisorRequests ''error''])
      \<and> (\<exists>coords. length coords = length before \<and>
            tr3 = tr @ concat (map2 (city_events env) before coords) @ geocode_events env city
                  @ fetch_events env (lat, lon) ''error'')
      \<and> (\<exists>evs. tr3 @ [advisorRequests ''error''] = tr @ evs \<and> list_all transport_event evs))"
proof (intro conjI impI)
  note step = failing_city_step [OF assms(2), of city after]
  from cities_prefix_events [OF assms(2)] obtain coords where
    coords: "length coords = length before"
      "tr1 = tr @ concat (map2 (city_events env) before coords)"
    by blast
  have ge: "list_all transport_event (geocode_events env city)"
    by (simp add: geocode_events_def split: option.splits)
  {
    assume geo: "geocodeCity env tr1 city '''' = (Inl err, tr2)"
    have loop: "GetAdvice_cities env tr (Cities req) [] =
        (Inl (''geocoding failed for '' @ CityData.Location city @ '': '' @ err),
         tr2 @ [advisorRequests ''error''])"
      using step geo by (simp add: assms(1))
    show "GetAdvice env tr req =
          (Return (Inl (''geocoding failed for '' @ CityData.Location city @ '': '' @ err)),
           tr2 @ [advisorRequests ''error''])"
      using loop by (simp add: GetAdvice_def)
    show "StreamAdvice env tr req =
          Some (Return (Some (''geocoding failed for '' @ CityData.Location city @ '': '' @ err)),
                tr2 @ [advisorRequests ''error''])"
      using loop by (simp add: StreamAdvice_def StreamAdvice_cities_eq)
    have tr2: "tr2 = tr @ concat (map2 (city_events env) before coords) @ geocode_events env city"
      using geocodeCity_events [OF geo] coords(2) by simp
    with coords(1) show "\<exists>coords. length coords = length before \<and>
            tr2 = tr @ concat (map2 (city_events env) before coords) @ geocode_events env city"
      by blast
    show "\<exists>evs. tr2 @ [advisorRequests ''error''] = tr @ evs \<and> list_all transport_event evs"
      using tr2 ge cities_events_transport [of env before coords]
      by (simp add: advisorRequests_def)
  }
  {
    assume h: "geocodeCity env tr1 city '''' = (Inr (lat, lon), tr2) \<and>
        GetCurrentWeather env tr2 \<lparr>WeatherRequest.Latitude = lat, Longitude = lon\<rparr> = (Inl err, tr3)"
    then have geo: "geocodeCity env tr1 city '''' = (Inr (lat, lon), tr2)"
      and fetch: "GetCurrentWeather env tr2 \<lparr>WeatherRequest.Latitude = lat, Longitude = lon\<rparr> = (Inl err, tr3)"
      by simp_all
    have loop: "GetAdvice_cities env tr (Cities req) [] =
        (Inl (''weather request failed for '' @ CityData.Location city @ '': '' @ err),
         tr3 @ [advisorRequests ''error''])"
      using step geo fetch by (simp add: assms(1))
    show "GetAdvice env tr req =
          (Return (Inl (''weather request failed for '' @ CityData.Location city @ '': '' @ err)),
           tr3 @ [advisorRequests ''error''])"
      using loop by (simp add: GetAdvice_def)
    show "StreamAdvice env tr req =
          Some (Return (Some (''weather request failed for '' @ CityData.Location city @ '': '' @ err)),
                tr3 @ [advisorRequests ''error''])"
      using loop by (simp add: StreamAdvice_def StreamAdvice_cities_eq)
    have tr3: "tr3 = tr @ concat (map2 (city_events env) before coords) @ geocode_events env city
                  @ fetch_events env (lat, lon) ''error''"
      using geocodeCity_events [OF geo] GetCurrentWeather_events [OF fetch] coords(2)
      by (simp add: fetch_events_def)
    with coords(1) show "\<exists>coords. length coords = length before \<and>
            tr3 = tr @ concat (map2 (city_events env) before coords) @ geocode_events env city
                  @ fetch_events env (lat, lon) ''error''"
      by blast
    show "\<exists>evs. tr3 @ [advisorRequests ''error''] = tr @ evs \<and> list_all transport_event evs"
      using tr3 ge cities_events_transport [of env before coords]
      by (simp add: advisorRequests_def fetch_events_def weatherRequests_def)
  }
qed

theorem failing_city_aborts_request_witness:
  "Cities lost_request = [new_york] @ nowhereville # [london]
   \<and> GetAdvice_cities sample_env [] [new_york] [] = (Inr [sample_line ''40.71,-74.01''], new_york_trace)
   \<and> geocodeCity sample_env new_york_trace nowhereville '''' =
       (Inl lost_message, new_york_trace @ [HttpGet nowhereville_url])
   \<and> GetAdvice sample_env [] lost_request =
       (Return (Inl (''geocoding failed for Nowhereville: '' @ lost_message)),
        new_york_trace @ [HttpGet nowhereville_url, advisorRequests ''error''])
   \<and> StreamAdvice sample_env [] lost_request =
       Some (Return (Some (''geocoding failed for Nowhereville: '' @ lost_message)),
             new_york_trace @ [HttpGet nowhereville_url, advisorRequests ''error''])
   \<and> Cities pair_request = [] @ new_york # [london]
   \<and> GetCurrentWeather overloaded_env [] \<lparr>WeatherRequest.Latitude = 40.7128, Longitude = -74.0060\<rparr> =
       (Inl ''API status: 503'',
        [HttpGet (forecast_url ''40.712800'' ''-74.006000''), weatherRequests ''error''])
   \<and> GetAdvice overloaded_env [] pair_request =
       (Return (Inl ''weather request failed for New York: API status: 503''),
        [HttpGet (forecast_url ''40.712800'' ''-74.006000''), weatherRequests ''error'',
         advisorRequests ''error''])
   \<and> StreamAdvice overloaded_env [] pair_request =
       Some (Return (Some ''weather request failed for New York: API status: 503''),
             [HttpGet (forecast_url ''40.712800'' ''-74.006000''), weatherRequests ''error'',
              advisorRequests ''error''])"
proof -
  have req1: "Cities lost_request = [new_york] @ nowhereville # [london]"
    by (simp add: lost_request_def)
  have before1: "GetAdvice_cities sample_env [] [new_york] [] =
      (Inr [sample_line ''40.71,-74.01''], new_york_trace)"
    using new_york_cities by (simp add: new_york_trace_def)
  have req2: "Cities pair_request = [] @ new_york # [london]"
    by (simp add: pair_request_def)
  have before2: "GetAdvice_cities overloaded_env [] [] [] = (Inr [], [])"
    by simp
  have fetch2: "GetCurrentWeather overloaded_env []
      \<lparr>WeatherRequest.Latitude = 40.7128, Longitude = -74.0060\<rparr> =
       (Inl ''API status: 503'',
        [HttpGet (forecast_url ''40.712800'' ''-74.006000''), weatherRequests ''error''])"
    using overloaded_fetch [of "[]"] by simp
  have a: "GetAdvice sample_env [] lost_request =
       (Return (Inl (''geocoding failed for Nowhereville: '' @ lost_message)),
        new_york_trace @ [HttpGet nowhereville_url, advisorRequests ''error''])"
    "StreamAdvice sample_env [] lost_request =
       Some (Return (Some (''geocoding failed for Nowhereville: '' @ lost_message)),
             new_york_trace @ [HttpGet nowhereville_url, advisorRequests ''error''])"
    using failing_city_aborts_request [OF req1 before1, where err = lost_message
        and ?tr2.0 = "new_york_trace @ [HttpGet nowhereville_url]"] lost_resolution
    by (simp_all add: nowhereville_name)
  have b: "GetAdvice overloaded_env [] pair_request =
       (Return (Inl ''weather request failed for New York: API status: 503''),
        [HttpGet (forecast_url ''40.712800'' ''-74.006000''), weatherRequests ''error'',
         advisorRequests ''error''])"
    "StreamAdvice overloaded_env [] pair_request =
       Some (Return (Some ''weather request failed for New York: API status: 503''),
             [HttpGet (forecast_url ''40.712800'' ''-74.006000''), weatherRequests ''error'',
              advisorRequests ''error''])"
    using failing_city_aborts_request [OF req2 before2, where lat = "40.7128" and lon = "-74.0060"
        and err = "''API status: 503''" and ?tr2.0 = "[]"
        and ?tr3.0 = "[HttpGet (forecast_url ''40.712800'' ''-74.006000''), weatherRequests ''error'']"]
      overloaded_resolution fetch2
    by (simp_all add: city_names)
  from req1 before1 lost_resolution a req2 fetch2 b show ?thesis
    by blast
qed

subsection \<open>The end of a stream\<close>

text \<open>
  Claim C2, where the code departs from it. The request names one curated city; the
  backend streams one response with two texts and is then exhausted, so the iterator
  returns its sentinel. The code relays the two texts, then takes the sentinel for a
  failure: \<open>StreamAdvice\<close> returns \<open>advice generation failed: streaming failed: no more
  items in iterator\<close> and the fragments sent are the two non-final ones, with no terminal
  fragment after them.
\<close>

theorem exhausted_stream_reported_as_failure:
  "Cities london_request = [london]
   \<and> london_stream =
       [HttpGet (forecast_url ''51.507400'' ''-0.127800''), weatherRequests ''success'',
        GenerateContentStream model_name (prompt [sample_line ''51.51,-0.13'']),
        IterNext (Inr sample_answer),
        StreamSend \<lparr>Chunk = ''Take '', IsComplete = False\<rparr>,
        StreamSend \<lparr>Chunk = ''an umbrella.'', IsComplete = False\<rparr>]
   \<and> iter_next sample_env london_stream = Inl iterator_Done
   \<and> iterator_Done = ''no more items in iterator''
   \<and> \<not> end_of_stream iterator_Done
   \<and> StreamAdvice sample_env [] london_request =
       Some (Return (Some ''advice generation failed: streaming failed: no more items in iterator''),
             london_stream @ [IterNext (Inl iterator_Done), advisorRequests ''error''])
   \<and> sent (london_stream @ [IterNext (Inl iterator_Done), advisorRequests ''error'']) =
       [\<lparr>Chunk = ''Take '', IsComplete = False\<rparr>, \<lparr>Chunk = ''an umbrella.'', IsComplete = False\<rparr>]"
proof -
  have a: "Cities london_request = [london]"
    by (simp add: london_request_def)
  have b: "london_stream =
       [HttpGet (forecast_url ''51.507400'' ''-0.127800''), weatherRequests ''success'',
        GenerateContentStream model_name (prompt [sample_line ''51.51,-0.13'']),
        IterNext (Inr sample_answer),
        StreamSend \<lparr>Chunk = ''Take '', IsComplete = False\<rparr>,
        StreamSend \<lparr>Chunk = ''an umbrella.'', IsComplete = False\<rparr>]"
    by (simp add: london_stream_def london_trace_def non_final_def)
  have c: "StreamAdvice sample_env [] london_request =
       Some (Return (Some ''advice generation failed: streaming failed: no more items in iterator''),
             london_stream @ [IterNext (Inl iterator_Done), advisorRequests ''error''])"
    using london_streamed(1) by (simp add: iterator_Done_def)
  have d: "sent (london_stream @ [IterNext (Inl iterator_Done), advisorRequests ''error'']) =
       [\<lparr>Chunk = ''Take '', IsComplete = False\<rparr>, \<lparr>Chunk = ''an umbrella.'', IsComplete = False\<rparr>]"
    by (simp add: sent_append london_stream_sent advisorRequests_def non_final_def)
  from a b london_last_next(1) iterator_Done_def Done_not_end_of_stream c d show ?thesis
    by simp
qed

subsection \<open>A stream that is cut\<close>

text \<open>
  Claim C3, where the code departs from it. The same request; the stream is cut after
  the first response and the iterator returns \<open>unexpected EOF\<close>, an error that is not
  its sentinel. The message contains \<open>EOF\<close>, so the code takes it for the end of the
  stream: it sends the terminal fragment and \<open>StreamAdvice\<close> returns without error.
\<close>

theorem truncated_stream_reported_as_complete:
  "Cities london_request = [london]
   \<and> iter_next truncated_env london_stream = Inl unexpected_EOF
   \<and> unexpected_EOF = ''unexpected EOF''
   \<and> unexpected_EOF \<noteq> iterator_Done
   \<and> end_of_stream unexpected_EOF
   \<and> StreamAdvice truncated_env [] london_request =
       Some (Return None,
             london_stream @ [IterNext (Inl unexpected_EOF),
                              StreamSend \<lparr>Chunk = '''', IsComplete = True\<rparr>,
                              advisorRequests ''success''])
   \<and> sent (london_stream @ [IterNext (Inl unexpected_EOF),
                            StreamSend \<lparr>Chunk = '''', IsComplete = True\<rparr>,
                            advisorRequests ''success'']) =
       [\<lparr>Chunk = ''Take '', IsComplete = False\<rparr>, \<lparr>Chunk = ''an umbrella.'', IsComplete = False\<rparr>,
        \<lparr>Chunk = '''', IsComplete = True\<rparr>]"
proof -
  have a: "Cities london_request = [london]"
    by (simp add: london_request_def)
  have c: "StreamAdvice truncated_env [] london_request =
       Some (Return None,
             london_stream @ [IterNext (Inl unexpected_EOF),
                              StreamSend \<lparr>Chunk = '''', IsComplete = True\<rparr>,
                              advisorRequests ''success''])"
    using london_streamed(2) by (simp add: final_fragment_def)
  have d: "sent (london_stream @ [IterNext (Inl unexpected_EOF),
                            StreamSend \<lparr>Chunk = '''', IsComplete = True\<rparr>,
                            advisorRequests ''success'']) =
       [\<lparr>Chunk = ''Take '', IsComplete = False\<rparr>, \<lparr>Chunk = ''an umbrella.'', IsComplete = False\<rparr>,
        \<lparr>Chunk = '''', IsComplete = True\<rparr>]"
    by (simp add: sent_append london_stream_sent advisorRequests_def non_final_def)
  from a london_last_next(2) unexpected_EOF_def unexpected_EOF_not_Done
    unexpected_EOF_end_of_stream c d
  show ?thesis by simp
qed

subsection \<open>Curated cities\<close>

text \<open>
  Claim C4. A city whose name is a key of the curated table (compared exactly, so
  case-sensitively) resolves to the coordinate of its entry and leaves the trace as it
  was: no request goes out. In particular \<open>New York\<close> resolves to (40.7128, -74.0060);
  \<open>new york\<close> is not a key and goes to the geocoding provider.
\<close>

theorem geocodeCity_curated_no_request:
  "(\<forall>c. map_of cityCoords (CityData.Location city) = Some c \<longrightarrow>
          geocodeCity env tr city apiKey = (Inr c, tr))
   \<and> (CityData.Location city = ''New York'' \<longrightarrow>
          geocodeCity env tr city apiKey = (Inr (40.7128, -74.0060), tr))
   \<and> (CityData.Location city = ''new york'' \<longrightarrow>
          snd (geocodeCity env tr city apiKey) = tr @ [HttpGet (geocode_url env city)])"
proof (intro conjI allI impI)
  fix c assume "map_of cityCoords (CityData.Location city) = Some c"
  then show "geocodeCity env tr city apiKey = (Inr c, tr)"
    by (rule geocodeCity_curated)
next
  assume "CityData.Location city = ''New York''"
  then have "map_of cityCoords (CityData.Location city) = Some (40.7128, -74.0060)"
    by (simp add: cityCoords_def)
  then show "geocodeCity env tr city apiKey = (Inr (40.7128, -74.0060), tr)"
    by (rule geocodeCity_curated)
next
  assume "CityData.Location city = ''new york''"
  then have "geocode_events env city = [HttpGet (geocode_url env city)]"
    by (simp add: geocode_events_def cityCoords_def)
  then show "snd (geocodeCity env tr city apiKey) = tr @ [HttpGet (geocode_url env city)]"
    using geocodeCity_events [of env tr city apiKey] by (cases "geocodeCity env tr city apiKey") simp
qed

theorem geocodeCity_curated_no_request_witness:
  "map_of cityCoords (CityData.Location new_york) = Some (40.7128, -74.0060)
   \<and> geocodeCity sample_env [] new_york '''' = (Inr (40.7128, -74.0060), [])
   \<and> snd (geocodeCity sample_env [] new_york_lowercase '''') =
       [HttpGet ''https://geocoding-api.open-meteo.com/v1/search?name=new+york&count=1&language=en&format=json'']"
  using geocodeCity_curated_no_request [of new_york sample_env "[]" "''''"]
    geocodeCity_curated_no_request [of new_york_lowercase sample_env "[]" "''''"]
  by (simp add: new_york_def new_york_lowercase_def cityCoords_def geocode_url_def sample_oracles
      sample_escape_def)

subsection \<open>Cities the provider must resolve\<close>

text \<open>
  Claim C5. For a city that is not a key of the curated table: when the geocoding
  request is answered with status 200 and a body that decodes to zero results,
  resolution fails with the message \<open>location not found\<close>, which names the city and
  lists the curated names as a hint; when the request fails in transport, or is answered
  with a status other than 200, resolution fails with \<open>geocoding failed\<close> or
  \<open>geocoding API returned status\<close> instead. One request has gone out in each case.
\<close>

theorem geocodeCity_remote_failures:
  assumes "map_of cityCoords (CityData.Location city) = None"
  shows
    "(http_get env tr (geocode_url env city) = Response 200 body \<and>
      decode_geocode env body = Inr geocodeResp \<and> Results geocodeResp = [] \<longrightarrow>
        geocodeCity env tr city apiKey =
          (Inl (''location not found: '' @ CityData.Location city @
                '' (try: '' @ strings_Join (map fst cityCoords) '', '' @ '')''),
           tr @ [HttpGet (geocode_url env city)]))
     \<and> (http_get env tr (geocode_url env city) = TransportError err \<longrightarrow>
        geocodeCity env tr city apiKey =
          (Inl (''geocoding failed: '' @ err), tr @ [HttpGet (geocode_url env city)]))
     \<and> (http_get env tr (geocode_url env city) = Response status body \<and> status \<noteq> 200 \<longrightarrow>
        geocodeCity env tr city apiKey =
          (Inl (''geocoding API returned status '' @ sprintf_d status),
           tr @ [HttpGet (geocode_url env city)]))"
  using assms by (simp add: geocodeCity_def Let_def curated_hint)

theorem geocodeCity_remote_failures_witness:
  "map_of cityCoords (CityData.Location nowhereville) = None
   \<and> geocodeCity sample_env [] nowhereville '''' =
       (Inl ''location not found: Nowhereville (try: New York, London, Tokyo, Paris, Los Angeles, Chicago, Sydney)'',
        [HttpGet nowhereville_url])
   \<and> geocodeCity unreachable_env [] nowhereville '''' =
       (Inl ''geocoding failed: dial tcp: i/o timeout'', [HttpGet nowhereville_url])
   \<and> geocodeCity overloaded_env [] nowhereville '''' =
       (Inl ''geocoding API returned status 503'', [HttpGet nowhereville_url])"
  using nowhereville_absent
    geocodeCity_remote_failures [OF nowhereville_absent, where env = sample_env and tr = "[]"
      and body = "''{}''" and geocodeResp = "\<lparr>Results = []\<rparr>" and apiKey = "''''"]
    geocodeCity_remote_failures [OF nowhereville_absent, where env = unreachable_env and tr = "[]"
      and err = "''dial tcp: i/o timeout''" and apiKey = "''''"]
    geocodeCity_remote_failures [OF nowhereville_absent, where env = overloaded_env and tr = "[]"
      and body = "''Service Unavailable''" and status = 503 and apiKey = "''''"]
  by (simp add: nowhereville_urls nowhereville_replies sample_oracles sprintf_d_503 curated_hint
      nowhereville_name)

subsection \<open>The advice of a single-shot call\<close>

text \<open>
  Claim C6, as the code has it. Let the request have at least one city and let every
  city resolve and be fetched. When the backend answers with at least one candidate and
  the first candidate carries a content, \<open>GetAdvice\<close> returns as advice the texts of the
  text parts of that content, concatenated in order (parts that are not text contribute
  nothing, and nothing makes the result non-empty); when the backend answers with no
  candidate, \<open>GetAdvice\<close> fails with \<open>advice generation failed: no response generated\<close>.
\<close>

theorem advice_is_first_candidate_text:
  assumes "Cities req \<noteq> []"
    and "GetAdvice_cities env tr (Cities req) [] = (Inr weatherData, tr1)"
    and "generate_content env tr1 model_name (prompt weatherData) = Inr resp"
  shows
    "(\<forall>cand cands content. Candidates resp = cand # cands \<and> Content cand = Some content \<longrightarrow>
        GetAdvice env tr req =
          (Return (Inr \<lparr>Advice = concat (map (\<lambda>p. case p of Text text \<Rightarrow> text | OtherPart \<Rightarrow> [])
                                          (Parts content))\<rparr>),
           tr1 @ [GenerateContent model_name (prompt weatherData), advisorRequests ''success'']))
     \<and> (Candidates resp = [] \<longrightarrow>
        GetAdvice env tr req =
          (Return (Inl ''advice generation failed: no response generated''),
           tr1 @ [GenerateContent model_name (prompt weatherData), advisorRequests ''error'']))"
  using assms(2,3)
  by (simp add: GetAdvice_def generateAdvice_def Let_def text_parts_concat)

theorem advice_is_first_candidate_text_witness:
  "Cities london_request \<noteq> []
   \<and> GetAdvice_cities sample_env [] (Cities london_request) [] =
     (Inr [sample_line ''51.51,-0.13''], london_trace)
   \<and> generate_content sample_env london_trace model_name (prompt [sample_line ''51.51,-0.13'']) =
       Inr sample_answer
   \<and> Candidates sample_answer =
       [\<lparr>Content = Some \<lparr>Parts = [Text ''Take '', OtherPart, Text ''an umbrella.'']\<rparr>\<rparr>]
   \<and> GetAdvice sample_env [] london_request =
       (Return (Inr \<lparr>Advice = ''Take an umbrella.''\<rparr>),
        london_trace @ [GenerateContent model_name (prompt [sample_line ''51.51,-0.13'']),
                        advisorRequests ''success''])
   \<and> generate_content mute_env london_trace model_name (prompt [sample_line ''51.51,-0.13'']) =
       Inr \<lparr>Candidates = []\<rparr>
   \<and> GetAdvice mute_env [] london_request =
       (Return (Inl ''advice generation failed: no response generated''),
        london_trace @ [GenerateContent model_name (prompt [sample_line ''51.51,-0.13'']),
                        advisorRequests ''error''])"
proof -
  have c: "Candidates sample_answer =
      [\<lparr>Content = Some \<lparr>Parts = [Text ''Take '', OtherPart, Text ''an umbrella.'']\<rparr>\<rparr>]"
    by (simp add: sample_answer_def)
  have a: "GetAdvice sample_env [] london_request =
       (Return (Inr \<lparr>Advice = ''Take an umbrella.''\<rparr>),
        london_trace @ [GenerateContent model_name (prompt [sample_line ''51.51,-0.13'']),
                        advisorRequests ''success''])"
    using advice_is_first_candidate_text [OF london_request_cities london_cities backend_answers(1)] c
    by simp
  have b: "GetAdvice mute_env [] london_request =
       (Return (Inl ''advice generation failed: no response generated''),
        london_trace @ [GenerateContent model_name (prompt [sample_line ''51.51,-0.13'']),
                        advisorRequests ''error''])"
    using advice_is_first_candidate_text [OF london_request_cities london_cities_mute(1)
        backend_answers(2)]
    by simp
  from london_request_cities london_cities backend_answers(1,2) c a b show ?thesis
    by blast
qed

text \<open>
  The advice need not be non-empty: with one valid city and a backend that answers with
  one candidate whose content has no part, \<open>GetAdvice\<close> succeeds and the advice is the
  empty string.
\<close>

theorem advice_may_be_empty:
  "GetAdvice_cities wordless_env [] (Cities london_request) [] =
     (Inr [sample_line ''51.51,-0.13''], london_trace)
   \<and> generate_content wordless_env london_trace model_name (prompt [sample_line ''51.51,-0.13'']) =
       Inr wordless_answer
   \<and> Candidates wordless_answer = [\<lparr>Content = Some \<lparr>Parts = []\<rparr>\<rparr>]
   \<and> fst (GetAdvice wordless_env [] london_request) = Return (Inr \<lparr>Advice = ''''\<rparr>)"
  by (simp add: london_cities_mute backend_answers GetAdvice_def generateAdvice_def
      wordless_answer_def)

subsection \<open>Weather descriptions\<close>

text \<open>
  Claim C7. A successful weather fetch takes its condition description from
  \<open>getWeatherDescription\<close> applied to the weather code the provider sent;
  \<open>getWeatherDescription\<close> returns the entry of the fixed table for a code that has one
  and \<open>unknown\<close> for every other code; and no code makes the fetch fail: a reply with
  status 200 and a body that decodes always gives a response.
\<close>

theorem weather_description_from_table:
  "(GetCurrentWeather env tr req = (Inr resp, tr') \<longrightarrow>
      (\<exists>body weatherData.
          http_get env tr (weather_url env req) = Response 200 body \<and>
          decode_weather env body = Inr weatherData \<and>
          Description resp = getWeatherDescription (WeatherCode (Current weatherData))))
   \<and> (\<forall>desc. (code, desc) \<in> set descriptions \<longrightarrow> getWeatherDescription code = desc)
   \<and> (code \<notin> fst ` set descriptions \<longrightarrow> getWeatherDescription code = ''unknown'')
   \<and> (http_get env tr (weather_url env req) = Response 200 body \<and>
       decode_weather env body = Inr weatherData \<longrightarrow>
         (\<exists>resp. fst (GetCurrentWeather env tr req) = Inr resp \<and>
            Description resp = getWeatherDescription (WeatherCode (Current weatherData))))"
proof (intro conjI allI impI)
  assume "GetCurrentWeather env tr req = (Inr resp, tr')"
  then show "\<exists>body weatherData.
          http_get env tr (weather_url env req) = Response 200 body \<and>
          decode_weather env body = Inr weatherData \<and>
          Description resp = getWeatherDescription (WeatherCode (Current weatherData))"
    by (auto simp: GetCurrentWeather_def Let_def split: http_reply.splits if_splits sum.splits)
next
  fix desc assume "(code, desc) \<in> set descriptions"
  then have "map_of descriptions code = Some desc"
    using descriptions_distinct by simp
  then show "getWeatherDescription code = desc"
    by (simp add: getWeatherDescription_def)
next
  assume "code \<notin> fst ` set descriptions"
  then have "map_of descriptions code = None"
    by (simp add: map_of_eq_None_iff)
  then show "getWeatherDescription code = ''unknown''"
    by (simp add: getWeatherDescription_def)
next
  assume "http_get env tr (weather_url env req) = Response 200 body \<and>
       decode_weather env body = Inr weatherData"
  then show "\<exists>resp. fst (GetCurrentWeather env tr req) = Inr resp \<and>
            Description resp = getWeatherDescription (WeatherCode (Current weatherData))"
    by (simp add: GetCurrentWeather_def Let_def)
qed

theorem weather_description_from_table_witness:
  "GetCurrentWeather sample_env [] new_york_request =
     (Inr (sample_response ''40.71,-74.01''),
      [HttpGet (forecast_url ''40.712800'' ''-74.006000''), weatherRequests ''success''])
   \<and> Description (sample_response ''40.71,-74.01'') = ''partly cloudy''
   \<and> (2, ''partly cloudy'') \<in> set descriptions \<and> getWeatherDescription 2 = ''partly cloudy''
   \<and> 4 \<notin> fst ` set descriptions \<and> getWeatherDescription 4 = ''unknown''
   \<and> fst (GetCurrentWeather unseen_code_env [] new_york_request) =
       Inr ((sample_response ''40.71,-74.01'')\<lparr>Description := ''unknown''\<rparr>)"
proof -
  have run: "GetCurrentWeather sample_env [] new_york_request =
     (Inr (sample_response ''40.71,-74.01''),
      [HttpGet (forecast_url ''40.712800'' ''-74.006000''), weatherRequests ''success''])"
    by (simp add: new_york_request_def sample_eval)
  have known: "(2, ''partly cloudy'') \<in> set descriptions"
    by (simp add: descriptions_def)
  have unseen: "4 \<notin> fst ` set descriptions"
    by (simp add: descriptions_def)
  have reply: "http_get unseen_code_env [] (weather_url unseen_code_env new_york_request) = Response 200 ''{}''
      \<and> decode_weather unseen_code_env ''{}'' =
          Inr (sample_weather\<lparr>Current := (Current sample_weather)\<lparr>WeatherCode := 4\<rparr>\<rparr>)"
    by (simp add: unseen_code_oracles weather_url_forecast sample_forecast_reply)
  have a: "getWeatherDescription 2 = ''partly cloudy''"
    using weather_description_from_table [of sample_env "[]" new_york_request _ _ 2] known
    by blast
  have b: "getWeatherDescription 4 = ''unknown''"
    using weather_description_from_table [of sample_env "[]" new_york_request _ _ 4] unseen
    by blast
  have c: "\<exists>resp. fst (GetCurrentWeather unseen_code_env [] new_york_request) = Inr resp \<and>
      Description resp = getWeatherDescription 4"
    using weather_description_from_table [of unseen_code_env "[]" new_york_request _ _ 4 "''{}''"
        "sample_weather\<lparr>Current := (Current sample_weather)\<lparr>WeatherCode := 4\<rparr>\<rparr>"] reply
    by simp
  have d: "Description (sample_response ''40.71,-74.01'') = ''partly cloudy''"
    by (simp add: sample_response_def)
  show ?thesis
    using run known unseen a b c d unseen_code_fetch by simp
qed

subsection \<open>Order of the cities\<close>



subsection \<open>The location label\<close>

text \<open>
  Claim C9. The location label of a successful \<open>GetCurrentWeather\<close> response is the
  latitude and the longitude of the request, each formatted with \<open>%.2f\<close>, with a comma
  between them. So each line that \<open>GetAdvice\<close> collects for the prompt starts with
  \<open>City:\<close> followed by the coordinates \<open>geocodeCity\<close> returned for that city, not by
  the name the request gave.
\<close>

theorem location_label_is_coordinates:
  "(GetCurrentWeather env tr req = (Inr resp, tr') \<longrightarrow>
      WeatherResponse.Location resp =
        sprintf_2f env (WeatherRequest.Latitude req) @ '','' @
        sprintf_2f env (WeatherRequest.Longitude req))
   \<and> (GetAdvice_cities env tr cities [] = (Inr weatherData, tr1) \<longrightarrow>
      list_all2 (\<lambda>city line. \<exists>lat lon tr_a tr_b rest.
          geocodeCity env tr_a city '''' = (Inr (lat, lon), tr_b) \<and>
          line = ''City: '' @ sprintf_2f env lat @ '','' @ sprintf_2f env lon @ '', Temp: '' @ rest)
        cities weatherData)"
proof (intro conjI impI)
  assume "GetCurrentWeather env tr req = (Inr resp, tr')"
  from GetCurrentWeather_Location [OF this]
  show "WeatherResponse.Location resp =
        sprintf_2f env (WeatherRequest.Latitude req) @ '','' @
        sprintf_2f env (WeatherRequest.Longitude req)"
    by (simp add: coordinate_label_def)
next
  assume "GetAdvice_cities env tr cities [] = (Inr weatherData, tr1)"
  from cities_success [OF this] obtain rs where
    rs: "list_all2 (\<lambda>city r.
            (\<forall>c. map_of cityCoords (CityData.Location city) = Some c \<longrightarrow> fst r = c) \<and>
            (\<exists>tr_a tr_b. geocodeCity env tr_a city '''' = (Inr (fst r), tr_b)) \<and>
            WeatherResponse.Location (snd r) = coordinate_label env (fst r)) cities rs"
    and wd: "weatherData = map (\<lambda>r. weatherInfo env (snd r)) rs"
    by auto
  have "list_all2 (\<lambda>city r. \<exists>lat lon tr_a tr_b rest.
          geocodeCity env tr_a city '''' = (Inr (lat, lon), tr_b) \<and>
          weatherInfo env (snd r) =
            ''City: '' @ sprintf_2f env lat @ '','' @ sprintf_2f env lon @ '', Temp: '' @ rest)
        cities rs"
  proof (rule list_all2_mono [OF rs])
    fix city :: CityData and r :: "(float64 \<times> float64) \<times> WeatherResponse"
    assume h: "(\<forall>c. map_of cityCoords (CityData.Location city) = Some c \<longrightarrow> fst r = c) \<and>
            (\<exists>tr_a tr_b. geocodeCity env tr_a city '''' = (Inr (fst r), tr_b)) \<and>
            WeatherResponse.Location (snd r) = coordinate_label env (fst r)"
    then obtain tr_a tr_b where "geocodeCity env tr_a city '''' = (Inr (fst (fst r), snd (fst r)), tr_b)"
      by auto
    moreover from h have "weatherInfo env (snd r) =
        ''City: '' @ sprintf_2f env (fst (fst r)) @ '','' @ sprintf_2f env (snd (fst r)) @ '', Temp: '' @
        (sprintf_1f env (WeatherResponse.Temperature (snd r)) @ degree_sign
          @ ''C, Condition: '' @ Description (snd r)
          @ '', Humidity: '' @ sprintf_d (sint (WeatherResponse.Humidity (snd r)))
          @ ''%, Wind: '' @ sprintf_1f env (WeatherResponse.WindSpeed (snd r)) @ '' m/s'')"
      by (simp add: weatherInfo_def coordinate_label_def)
    ultimately show "\<exists>lat lon tr_a tr_b rest.
          geocodeCity env tr_a city '''' = (Inr (lat, lon), tr_b) \<and>
          weatherInfo env (snd r) =
            ''City: '' @ sprintf_2f env lat @ '','' @ sprintf_2f env lon @ '', Temp: '' @ rest"
      by blast
  qed
  then show "list_all2 (\<lambda>city line. \<exists>lat lon tr_a tr_b rest.
          geocodeCity env tr_a city '''' = (Inr (lat, lon), tr_b) \<and>
          line = ''City: '' @ sprintf_2f env lat @ '','' @ sprintf_2f env lon @ '', Temp: '' @ rest)
        cities weatherData"
    by (simp add: wd list_all2_map2)
qed

theorem location_label_is_coordinates_witness:
  "GetCurrentWeather sample_env [] new_york_request =
     (Inr (sample_response ''40.71,-74.01''),
      [HttpGet (forecast_url ''40.712800'' ''-74.006000''), weatherRequests ''success''])
   \<and> WeatherResponse.Location (sample_response ''40.71,-74.01'') = ''40.71,-74.01''
   \<and> GetAdvice_cities sample_env [] [new_york, reykjavik] [] =
     (Inr [sample_line ''40.71,-74.01'', sample_line ''64.15,-21.94''],
      [HttpGet (forecast_url ''40.712800'' ''-74.006000''), weatherRequests ''success'',
       HttpGet reykjavik_url,
       HttpGet (forecast_url ''64.146600'' ''-21.942600''), weatherRequests ''success''])
   \<and> prefix ''City: 40.71,-74.01, Temp: '' (sample_line ''40.71,-74.01'')
   \<and> prefix ''City: 64.15,-21.94, Temp: '' (sample_line ''64.15,-21.94'')"
proof -
  have run: "GetCurrentWeather sample_env [] new_york_request =
     (Inr (sample_response ''40.71,-74.01''),
      [HttpGet (forecast_url ''40.712800'' ''-74.006000''), weatherRequests ''success''])"
    by (simp add: new_york_request_def sample_eval)
  have a: "WeatherResponse.Location (sample_response ''40.71,-74.01'') = ''40.71,-74.01''"
    by (simp add: sample_response_def)
  have b: "list_all2 (\<lambda>city line. \<exists>lat lon tr_a tr_b rest.
          geocodeCity sample_env tr_a city '''' = (Inr (lat, lon), tr_b) \<and>
          line = ''City: '' @ sample_2f lat @ '','' @ sample_2f lon @ '', Temp: '' @ rest)
        [new_york, reykjavik] [sample_line ''40.71,-74.01'', sample_line ''64.15,-21.94'']"
    using location_label_is_coordinates [of sample_env "[]" new_york_request _ _
        "[new_york, reykjavik]"] sample_cities
    unfolding sample_oracles by blast
  have c: "prefix ''City: 40.71,-74.01, Temp: '' (sample_line ''40.71,-74.01'')"
    "prefix ''City: 64.15,-21.94, Temp: '' (sample_line ''64.15,-21.94'')"
    by (simp_all add: sample_line_def)
  show ?thesis
    using run a b sample_cities c by simp
qed

subsection \<open>Fields the provider does not supply\<close>

text \<open>
  Claim C10. Every successful \<open>GetCurrentWeather\<close> response has its feels-like, minimum
  and maximum temperature equal to its current temperature, and its pressure is the
  constant 1013, whatever the coordinate and whatever the provider answered.
\<close>

theorem GetCurrentWeather_fixed_fields:
  assumes "GetCurrentWeather env tr req = (Inr resp, tr')"
  shows "FeelsLike resp = WeatherResponse.Temperature resp
       \<and> TempMin resp = WeatherResponse.Temperature resp
       \<and> TempMax resp = WeatherResponse.Temperature resp
       \<and> Pressure resp = 1013"
  using assms
  by (auto simp: GetCurrentWeather_def Let_def split: http_reply.splits if_splits sum.splits)

theorem GetCurrentWeather_fixed_fields_witness:
  "GetCurrentWeather sample_env [] new_york_request = (Inr (sample_response ''40.71,-74.01''), new_york_trace)
   \<and> FeelsLike (sample_response ''40.71,-74.01'') = 21.5
   \<and> TempMin (sample_response ''40.71,-74.01'') = 21.5
   \<and> TempMax (sample_response ''40.71,-74.01'') = 21.5
   \<and> WeatherResponse.Temperature (sample_response ''40.71,-74.01'') = 21.5
   \<and> Pressure (sample_response ''40.71,-74.01'') = 1013"
proof -
  have run: "GetCurrentWeather sample_env [] new_york_request =
      (Inr (sample_response ''40.71,-74.01''), new_york_trace)"
    by (simp add: new_york_request_def new_york_trace_def sample_eval)
  have temp: "WeatherResponse.Temperature (sample_response ''40.71,-74.01'') = 21.5"
    by (simp add: sample_response_def)
  from GetCurrentWeather_fixed_fields [OF run] run temp show ?thesis
    by simp
qed

end
